theory Spec2Isabelle
  imports Main
begin

section \<open>The runtime: strings\<close>

text \<open>
  A JavaScript string is a sequence of UTF-16 code units. The module under verification
  (\<^verbatim>\<open>lib/ai/response-transformer.ts\<close>) reads its upstream through
  \<^verbatim>\<open>decoder.decode(value, { stream: true })\<close>; the model starts from the decoded text of
  each chunk, and a frame handed to \<^verbatim>\<open>controller.enqueue(encoder.encode(...))\<close> is the
  string that is encoded.
\<close>

type_synonym jsstring = "nat list"

definition js :: "string \<Rightarrow> jsstring" where
  "js s = map of_char s"

text \<open>\<^verbatim>\<open>String.prototype.trim\<close> removes WhiteSpace and LineTerminator code units.\<close>

definition isWhiteSpace :: "nat \<Rightarrow> bool" where
  "isWhiteSpace c =
     (List.member [9, 10, 11, 12, 13, 32, 160, 5760, 8232, 8233, 8239, 8287, 12288, 65279] c
      \<or> (8192 \<le> c \<and> c \<le> 8202))"

definition trim :: "jsstring \<Rightarrow> jsstring" where
  "trim s = rev (dropWhile isWhiteSpace (rev (dropWhile isWhiteSpace s)))"

definition startsWith :: "jsstring \<Rightarrow> jsstring \<Rightarrow> bool" where
  "startsWith s p = (take (length p) s = p)"

definition slice :: "nat \<Rightarrow> jsstring \<Rightarrow> jsstring" where
  "slice n s = drop n s"

text \<open>\<^verbatim>\<open>s.split(sep)\<close> for a one-unit separator: the pieces between the separators, at
  least one piece, the last one being what follows the last separator.\<close>

fun split :: "nat \<Rightarrow> jsstring \<Rightarrow> jsstring list" where
  "split sep [] = [[]]"
| "split sep (c # cs) =
     (if c = sep then [] # split sep cs
      else (case split sep cs of
              [] \<Rightarrow> [[c]]
            | l # ls \<Rightarrow> (c # l) # ls))"

fun intercalate :: "jsstring \<Rightarrow> jsstring list \<Rightarrow> jsstring" where
  "intercalate sep [] = []"
| "intercalate sep [x] = x"
| "intercalate sep (x # y # ys) = x @ sep @ intercalate sep (y # ys)"

text \<open>Decimal digits of a natural number, as in a template literal or \<^verbatim>\<open>String(n)\<close>.\<close>

function decimal :: "nat \<Rightarrow> jsstring" where
  "decimal n = (if n < 10 then [48 + n] else decimal (n div 10) @ [48 + n mod 10])"
  by pat_completeness auto
termination
  by (relation "measure (\<lambda>n. n)") auto

declare decimal.simps [simp del]

section \<open>The runtime: JSON values\<close>

text \<open>
  What \<^verbatim>\<open>JSON.parse\<close> returns. A number is identified by its \<^verbatim>\<open>Number::toString\<close>
  text (\<^verbatim>\<open>0\<close> for both zeros, \<^verbatim>\<open>Infinity\<close> for an overflowing literal), which
  decides both its truthiness and how it is printed again. An object is the list of
  its own properties in enumeration order, the keys distinct. \<^verbatim>\<open>undefined\<close> is not a
  JSON value: an expression that may be undefined has type \<open>json option\<close>.
\<close>

datatype json =
    JNull
  | JBool bool
  | JNum jsstring
  | JStr jsstring
  | JArr "json list"
  | JObj "(jsstring \<times> json) list"

datatype exn = SyntaxError | TypeError

text \<open>A canonical array index: \<^verbatim>\<open>"0"\<close>, or digits without a leading zero, below
  \<open>2^32 - 1\<close>.\<close>

fun digit_value :: "jsstring \<Rightarrow> nat \<Rightarrow> nat" where
  "digit_value [] acc = acc"
| "digit_value (c # cs) acc = digit_value cs (10 * acc + (c - 48))"

definition isDigit :: "nat \<Rightarrow> bool" where
  "isDigit c = (48 \<le> c \<and> c \<le> 57)"

definition array_index :: "jsstring \<Rightarrow> nat option" where
  "array_index k =
     (if k = [] \<or> \<not> list_all isDigit k then None
      else if hd k = 48 \<and> length k > 1 then None
      else if length k > 10 then None
      else if digit_value k 0 < 4294967295 then Some (digit_value k 0) else None)"

text \<open>\<^verbatim>\<open>v[k]\<close> on a value that is neither null nor undefined. The module reads
  the names \<^verbatim>\<open>content parts text response partial id metadata\<close> and the index
  \<^verbatim>\<open>0\<close>; none of them is inherited from a prototype, so only own properties, array
  elements and string units answer.\<close>

fun member :: "json \<Rightarrow> jsstring \<Rightarrow> json option" where
  "member (JObj kvs) k = map_of kvs k"
| "member (JArr xs) k =
     (case array_index k of
        None \<Rightarrow> None
      | Some i \<Rightarrow> if i < length xs then Some (xs ! i) else None)"
| "member (JStr s) k =
     (case array_index k of
        None \<Rightarrow> None
      | Some i \<Rightarrow> if i < length s then Some (JStr [s ! i]) else None)"
| "member JNull k = None"
| "member (JBool b) k = None"
| "member (JNum n) k = None"

text \<open>\<^verbatim>\<open>v.k\<close> throws a TypeError on null; \<^verbatim>\<open>x?.k\<close> is undefined when \<open>x\<close> is null or
  undefined.\<close>

definition dot :: "json \<Rightarrow> jsstring \<Rightarrow> exn + json option" where
  "dot v k = (if v = JNull then Inl TypeError else Inr (member v k))"

definition opt_dot :: "json option \<Rightarrow> jsstring \<Rightarrow> json option" where
  "opt_dot x k =
     (case x of
        None \<Rightarrow> None
      | Some v \<Rightarrow> if v = JNull then None else member v k)"

text \<open>ToBoolean.\<close>

fun truthy :: "json option \<Rightarrow> bool" where
  "truthy None = False"
| "truthy (Some JNull) = False"
| "truthy (Some (JBool b)) = b"
| "truthy (Some (JNum n)) = (n \<noteq> js ''0'' \<and> n \<noteq> js ''NaN'')"
| "truthy (Some (JStr s)) = (s \<noteq> [])"
| "truthy (Some (JArr xs)) = True"
| "truthy (Some (JObj kvs)) = True"

text \<open>\<^verbatim>\<open>a || b\<close>.\<close>

definition or_else :: "json option \<Rightarrow> json option \<Rightarrow> json option" where
  "or_else a b = (if truthy a then a else b)"

section \<open>The runtime: JSON.stringify\<close>

definition hexDigit :: "nat \<Rightarrow> nat" where
  "hexDigit d = (if d < 10 then 48 + d else 87 + d)"

definition unicodeEscape :: "nat \<Rightarrow> jsstring" where
  "unicodeEscape c =
     js [CHR 0x5C, CHR ''u''] @
     [hexDigit (c div 4096 mod 16), hexDigit (c div 256 mod 16),
      hexDigit (c div 16 mod 16), hexDigit (c mod 16)]"

definition isLeadSurrogate :: "nat \<Rightarrow> bool" where
  "isLeadSurrogate c = (55296 \<le> c \<and> c \<le> 56319)"

definition isTrailSurrogate :: "nat \<Rightarrow> bool" where
  "isTrailSurrogate c = (56320 \<le> c \<and> c \<le> 57343)"

definition quoteUnit :: "nat \<Rightarrow> jsstring" where
  "quoteUnit c =
     (if c = 8 then js [CHR 0x5C, CHR ''b'']
      else if c = 9 then js [CHR 0x5C, CHR ''t'']
      else if c = 10 then js [CHR 0x5C, CHR ''n'']
      else if c = 12 then js [CHR 0x5C, CHR ''f'']
      else if c = 13 then js [CHR 0x5C, CHR ''r'']
      else if c = 34 then js [CHR 0x5C, CHR 0x22]
      else if c = 92 then js [CHR 0x5C, CHR 0x5C]
      else if c < 32 \<or> isLeadSurrogate c \<or> isTrailSurrogate c then unicodeEscape c
      else [c])"

fun quoteBody :: "jsstring \<Rightarrow> jsstring" where
  "quoteBody [] = []"
| "quoteBody [c] = quoteUnit c"
| "quoteBody (c # d # ds) =
     (if isLeadSurrogate c \<and> isTrailSurrogate d then c # d # quoteBody ds
      else quoteUnit c @ quoteBody (d # ds))"

definition quoteJSONString :: "jsstring \<Rightarrow> jsstring" where
  "quoteJSONString s = [34] @ quoteBody s @ [34]"

fun JSON_stringify :: "json \<Rightarrow> jsstring" where
  "JSON_stringify JNull = js ''null''"
| "JSON_stringify (JBool b) = (if b then js ''true'' else js ''false'')"
| "JSON_stringify (JNum n) =
     (if n = js ''Infinity'' \<or> n = js ''-Infinity'' \<or> n = js ''NaN'' then js ''null'' else n)"
| "JSON_stringify (JStr s) = quoteJSONString s"
| "JSON_stringify (JArr xs) = js ''['' @ intercalate (js '','') (map JSON_stringify xs) @ js '']''"
| "JSON_stringify (JObj kvs) =
     js ''{'' @
     intercalate (js '','')
       (map (\<lambda>kv. quoteJSONString (fst kv) @ js '':'' @ JSON_stringify (snd kv)) kvs) @
     js ''}''"

section \<open>The runtime: JSON.parse\<close>

text \<open>
  A parser for the JSON grammar of ECMA-404, as \<^verbatim>\<open>JSON.parse\<close> applies it: \<open>None\<close>
  is the SyntaxError. The recursion over nested values is bounded by a counter (a list,
  consumed one cell per call) that starts at twice the length of the text plus two, more
  than any text can use up. Number
  literals are printed the way \<^verbatim>\<open>Number::toString\<close> prints the double nearest to
  them; the printer below is exact for literals of up to 15 significant digits in the
  range of normal doubles and for every zero and overflow, and prints the literal's own
  digits beyond that.
\<close>

definition isJSONSpace :: "nat \<Rightarrow> bool" where
  "isJSONSpace c = (c = 9 \<or> c = 10 \<or> c = 13 \<or> c = 32)"

definition skipWS :: "jsstring \<Rightarrow> jsstring" where
  "skipWS s = dropWhile isJSONSpace s"

definition nextIs :: "nat \<Rightarrow> jsstring \<Rightarrow> bool" where
  "nextIs c s = (case s of [] \<Rightarrow> False | d # ds \<Rightarrow> d = c)"

definition hexValue :: "nat \<Rightarrow> nat option" where
  "hexValue c =
     (if 48 \<le> c \<and> c \<le> 57 then Some (c - 48)
      else if 97 \<le> c \<and> c \<le> 102 then Some (c - 87)
      else if 65 \<le> c \<and> c \<le> 70 then Some (c - 55)
      else None)"

definition hex4 :: "nat \<Rightarrow> nat \<Rightarrow> nat \<Rightarrow> nat \<Rightarrow> nat option" where
  "hex4 a b c d =
     (case (hexValue a, hexValue b, hexValue c, hexValue d) of
        (Some w, Some x, Some y, Some z) \<Rightarrow> Some (4096 * w + 256 * x + 16 * y + z)
      | _ \<Rightarrow> None)"

definition simpleEscape :: "nat \<Rightarrow> nat option" where
  "simpleEscape e =
     (if e = 34 then Some 34
      else if e = 92 then Some 92
      else if e = 47 then Some 47
      else if e = 98 then Some 8
      else if e = 102 then Some 12
      else if e = 110 then Some 10
      else if e = 114 then Some 13
      else if e = 116 then Some 9
      else None)"

definition consUnit :: "nat \<Rightarrow> (jsstring \<times> jsstring) option \<Rightarrow> (jsstring \<times> jsstring) option" where
  "consUnit u r = (case r of None \<Rightarrow> None | Some (s, rest) \<Rightarrow> Some (u # s, rest))"

text \<open>The units after an opening quote, up to the closing one.\<close>

fun parseStringBody :: "jsstring \<Rightarrow> (jsstring \<times> jsstring) option" where
  "parseStringBody [] = None"
| "parseStringBody [c] = (if c = 34 then Some ([], []) else None)"
| "parseStringBody (c # e # cs) =
     (if c = 34 then Some ([], e # cs)
      else if c = 92 then
        (if e = 117 then
           (case cs of
              w # x # y # z # cs' \<Rightarrow>
                (case hex4 w x y z of
                   None \<Rightarrow> None
                 | Some u \<Rightarrow> consUnit u (parseStringBody cs'))
            | _ \<Rightarrow> None)
         else
           (case simpleEscape e of
              None \<Rightarrow> None
            | Some u \<Rightarrow> consUnit u (parseStringBody cs)))
      else if c < 32 then None
      else consUnit c (parseStringBody (e # cs)))"

text \<open>\<^verbatim>\<open>Number::toString\<close> of the value \<open>0.s \<times> 10^n\<close>, the digits \<open>s\<close> without
  leading or trailing zero.\<close>

definition formatNumber :: "jsstring \<Rightarrow> int \<Rightarrow> jsstring" where
  "formatNumber s n =
     (let k = int (length s) in
      if k \<le> n \<and> n \<le> 21 then s @ replicate (nat (n - k)) 48
      else if 0 < n \<and> n \<le> 21 then take (nat n) s @ js ''.'' @ drop (nat n) s
      else if - 6 < n \<and> n \<le> 0 then js ''0.'' @ replicate (nat (- n)) 48 @ s
      else
        (let e = n - 1;
             es = (if e < 0 then js ''-'' else js ''+'') @ decimal (nat \<bar>e\<bar>)
         in if k = 1 then s @ js ''e'' @ es
            else [hd s] @ js ''.'' @ tl s @ js ''e'' @ es))"

text \<open>The literal with integer digits \<open>ip\<close>, fraction digits \<open>fp\<close> and exponent \<open>ex\<close>.
  A value of at most \<open>2^-1075\<close> rounds to zero, one of at least \<open>2^1024 - 2^970\<close> to
  infinity.\<close>

definition numberToString :: "bool \<Rightarrow> jsstring \<Rightarrow> jsstring \<Rightarrow> int \<Rightarrow> jsstring" where
  "numberToString neg ip fp ex =
     (let ds = ip @ fp;
          lead = length (takeWhile (\<lambda>c. c = 48) ds);
          s = rev (dropWhile (\<lambda>c. c = 48) (rev (dropWhile (\<lambda>c. c = 48) ds)));
          m = digit_value s 0;
          n = int (length ip) - int lead + ex;
          x = n - int (length s)
      in if s = [] then js ''0''
         else if x < 0 \<and> m * 2 ^ 1075 \<le> 10 ^ nat (- x) then js ''0''
         else if (if 0 \<le> x then 2 ^ 1024 - 2 ^ 970 \<le> m * 10 ^ nat x
                  else (2 ^ 1024 - 2 ^ 970) * 10 ^ nat (- x) \<le> m)
              then (if neg then js ''-Infinity'' else js ''Infinity'')
         else (if neg then js ''-'' else []) @ formatNumber s n)"

definition parseExponent :: "jsstring \<Rightarrow> (int \<times> jsstring) option" where
  "parseExponent s =
     (if nextIs 101 s \<or> nextIs 69 s then
        (let r = tl s;
             neg = nextIs 45 r;
             r' = (if nextIs 45 r \<or> nextIs 43 r then tl r else r);
             ds = takeWhile isDigit r'
         in if ds = [] then None
            else Some ((if neg then - int (digit_value ds 0) else int (digit_value ds 0)),
                       dropWhile isDigit r'))
      else Some (0, s))"

definition parseFraction :: "jsstring \<Rightarrow> (jsstring \<times> jsstring) option" where
  "parseFraction s =
     (if nextIs 46 s then
        (let ds = takeWhile isDigit (tl s)
         in if ds = [] then None else Some (ds, dropWhile isDigit (tl s)))
      else Some ([], s))"

definition parseNumber :: "jsstring \<Rightarrow> (json \<times> jsstring) option" where
  "parseNumber s =
     (let neg = nextIs 45 s;
          r = (if neg then tl s else s);
          ip = (if nextIs 48 r then [48] else takeWhile isDigit r);
          r1 = drop (length ip) r
      in if ip = [] then None
         else (case parseFraction r1 of
                 None \<Rightarrow> None
               | Some (fp, r2) \<Rightarrow>
                   (case parseExponent r2 of
                      None \<Rightarrow> None
                    | Some (ex, r3) \<Rightarrow> Some (JNum (numberToString neg ip fp ex), r3))))"

text \<open>CreateDataProperty on an ordinary object: a key already there keeps its place
  and takes the new value; a new array-index key goes among the index keys in ascending
  order, which come first; any other new key goes last.\<close>

fun insertIndex :: "nat \<Rightarrow> jsstring \<Rightarrow> json \<Rightarrow> (jsstring \<times> json) list \<Rightarrow> (jsstring \<times> json) list" where
  "insertIndex i k v [] = [(k, v)]"
| "insertIndex i k v (kv # kvs) =
     (case array_index (fst kv) of
        None \<Rightarrow> (k, v) # kv # kvs
      | Some j \<Rightarrow> if i < j then (k, v) # kv # kvs else kv # insertIndex i k v kvs)"

definition setProperty :: "(jsstring \<times> json) list \<Rightarrow> jsstring \<times> json \<Rightarrow> (jsstring \<times> json) list" where
  "setProperty kvs kv =
     (if List.member (map fst kvs) (fst kv)
      then map (\<lambda>old. if fst old = fst kv then kv else old) kvs
      else (case array_index (fst kv) of
              None \<Rightarrow> kvs @ [kv]
            | Some i \<Rightarrow> insertIndex i (fst kv) (snd kv) kvs))"

definition makeObject :: "(jsstring \<times> json) list \<Rightarrow> json" where
  "makeObject kvs = JObj (foldl setProperty [] kvs)"

fun parseValue :: "unit list \<Rightarrow> jsstring \<Rightarrow> (json \<times> jsstring) option"
  and parseElements :: "unit list \<Rightarrow> jsstring \<Rightarrow> (json list \<times> jsstring) option"
  and parseMembers :: "unit list \<Rightarrow> jsstring \<Rightarrow> ((jsstring \<times> json) list \<times> jsstring) option"
where
  "parseValue [] s = None"
| "parseValue (u # n) s =
     (if nextIs 123 s then
        (if nextIs 125 (skipWS (tl s)) then Some (JObj [], tl (skipWS (tl s)))
         else (case parseMembers n (skipWS (tl s)) of
                 None \<Rightarrow> None
               | Some (kvs, r) \<Rightarrow> Some (makeObject kvs, r)))
      else if nextIs 91 s then
        (if nextIs 93 (skipWS (tl s)) then Some (JArr [], tl (skipWS (tl s)))
         else (case parseElements n (skipWS (tl s)) of
                 None \<Rightarrow> None
               | Some (vs, r) \<Rightarrow> Some (JArr vs, r)))
      else if nextIs 34 s then
        (case parseStringBody (tl s) of
           None \<Rightarrow> None
         | Some (str, r) \<Rightarrow> Some (JStr str, r))
      else if startsWith s (js ''true'') then Some (JBool True, drop 4 s)
      else if startsWith s (js ''false'') then Some (JBool False, drop 5 s)
      else if startsWith s (js ''null'') then Some (JNull, drop 4 s)
      else parseNumber s)"
| "parseElements [] s = None"
| "parseElements (u # n) s =
     (case parseValue n s of
        None \<Rightarrow> None
      | Some (v, r) \<Rightarrow>
          (if nextIs 44 (skipWS r) then
             (case parseElements n (skipWS (tl (skipWS r))) of
                None \<Rightarrow> None
              | Some (vs, r') \<Rightarrow> Some (v # vs, r'))
           else if nextIs 93 (skipWS r) then Some ([v], tl (skipWS r))
           else None))"
| "parseMembers [] s = None"
| "parseMembers (u # n) s =
     (if nextIs 34 s then
        (case parseStringBody (tl s) of
           None \<Rightarrow> None
         | Some (k, r) \<Rightarrow>
             (if nextIs 58 (skipWS r) then
                (case parseValue n (skipWS (tl (skipWS r))) of
                   None \<Rightarrow> None
                 | Some (v, r') \<Rightarrow>
                     (if nextIs 44 (skipWS r') then
                        (case parseMembers n (skipWS (tl (skipWS r'))) of
                           None \<Rightarrow> None
                         | Some (kvs, r'') \<Rightarrow> Some ((k, v) # kvs, r''))
                      else if nextIs 125 (skipWS r') then Some ([(k, v)], tl (skipWS r'))
                      else None))
              else None))
      else None)"

definition JSON_parse :: "jsstring \<Rightarrow> json option" where
  "JSON_parse s =
     (case parseValue (map (\<lambda>c. ()) (s @ s @ [0, 0])) (skipWS s) of
        None \<Rightarrow> None
      | Some (v, r) \<Rightarrow> if skipWS r = [] then Some v else None)"

section \<open>transformZenGPTResponseToDataStream\<close>

text \<open>
  The frames are the strings passed to \<^verbatim>\<open>controller.enqueue\<close>, in order. The
  completion frame is a literal; the text-delta frame wraps
  \<^verbatim>\<open>JSON.stringify({ type: 'text-delta', textDelta })\<close>.
\<close>

definition DONE_FRAME :: jsstring where
  "DONE_FRAME = js ''data: [DONE]\<newline>\<newline>''"

definition textDeltaFrame :: "json \<Rightarrow> jsstring" where
  "textDeltaFrame textDelta =
     js ''data: '' @
     JSON_stringify (JObj [(js ''type'', JStr (js ''text-delta'')), (js ''textDelta'', textDelta)]) @
     js ''\<newline>\<newline>''"

text \<open>
  Lines 467 to 473: \<^verbatim>\<open>textDelta\<close> starts as the empty string and is replaced by
  \<^verbatim>\<open>parsed.content?.parts?.[0]?.text\<close> when that is truthy, else by
  \<^verbatim>\<open>parsed.response || parsed.text\<close> when that is truthy. Reading a property of
  \<^verbatim>\<open>parsed\<close> throws when the payload is the JSON text \<^verbatim>\<open>null\<close>.
\<close>

definition nestedText :: "json option \<Rightarrow> json option" where
  "nestedText content = opt_dot (opt_dot (opt_dot content (js ''parts'')) (js ''0'')) (js ''text'')"

definition extractTextDelta :: "json \<Rightarrow> exn + json option" where
  "extractTextDelta parsed =
     (case dot parsed (js ''content'') of
        Inl e \<Rightarrow> Inl e
      | Inr content \<Rightarrow>
          if truthy (nestedText content) then Inr (nestedText content)
          else
            (case dot parsed (js ''response'') of
               Inl e \<Rightarrow> Inl e
             | Inr response \<Rightarrow>
                 (case dot parsed (js ''text'') of
                    Inl e \<Rightarrow> Inl e
                  | Inr text \<Rightarrow>
                      if truthy (or_else response text) then Inr (or_else response text)
                      else Inr (Some (JStr [])))))"

text \<open>\<^verbatim>\<open>if (textDelta) controller.enqueue(...)\<close>.\<close>

definition enqueueTextDelta :: "json option \<Rightarrow> jsstring list" where
  "enqueueTextDelta textDelta =
     (case textDelta of
        None \<Rightarrow> []
      | Some v \<Rightarrow> if truthy (Some v) then [textDeltaFrame v] else [])"

text \<open>
  The \<^verbatim>\<open>try\<close> block of lines 463 to 493 (and, word for word, of lines 506 to 533):
  the frames it enqueues and the exception that ends it, if any.
\<close>

definition tryPayload :: "jsstring \<Rightarrow> jsstring list \<times> exn option" where
  "tryPayload data =
     (case JSON_parse data of
        None \<Rightarrow> ([], Some SyntaxError)
      | Some parsed \<Rightarrow>
          (case extractTextDelta parsed of
             Inl e \<Rightarrow> ([], Some e)
           | Inr textDelta \<Rightarrow>
               (case dot parsed (js ''partial'') of
                  Inl e \<Rightarrow> (enqueueTextDelta textDelta, Some e)
                | Inr partial \<Rightarrow>
                    (enqueueTextDelta textDelta @
                       (if partial = Some (JBool False) then [DONE_FRAME] else []),
                     None))))"

text \<open>\<^verbatim>\<open>catch (parseError) { console.warn(...) }\<close>: what was enqueued stays enqueued.\<close>

definition catchWarn :: "jsstring list \<times> exn option \<Rightarrow> jsstring list" where
  "catchWarn r = fst r"

text \<open>The body of \<^verbatim>\<open>for (const line of lines)\<close>, lines 452 to 497.\<close>

definition processLine :: "jsstring \<Rightarrow> jsstring list" where
  "processLine line =
     (if trim line = [] then []
      else if startsWith line (js ''data: '') then
        (let data = slice 6 line
         in if data = js ''[DONE]'' then [DONE_FRAME]
            else catchWarn (tryPayload data))
      else [])"

text \<open>The remaining buffer, lines 502 to 542.\<close>

definition processRemaining :: "jsstring \<Rightarrow> jsstring list" where
  "processRemaining buffer =
     (if trim buffer \<noteq> [] then
        (if startsWith buffer (js ''data: '') then
           (let data = slice 6 buffer
            in if data \<noteq> js ''[DONE]'' then catchWarn (tryPayload data) else [])
         else [])
      else [])"

text \<open>
  \<^verbatim>\<open>reader.read()\<close> resolves with a chunk or rejects (a transport fault); the end of
  the list is \<^verbatim>\<open>done\<close>. The returned stream ends closed, or errored by the outer
  \<^verbatim>\<open>catch\<close>. \<^verbatim>\<open>lines.pop() || ''\<close> is the last piece: \<^verbatim>\<open>split\<close> returns at least one,
  and the empty string is the only falsy string.
\<close>

datatype readResult = Value jsstring | Rejected

datatype streamState = Closed | Errored

fun readLoop :: "jsstring \<Rightarrow> readResult list \<Rightarrow> jsstring list \<times> streamState" where
  "readLoop buffer [] = (processRemaining buffer, Closed)"
| "readLoop buffer (Rejected # reads) = ([], Errored)"
| "readLoop buffer (Value v # reads) =
     (let lines = split 10 (buffer @ v);
          rest = readLoop (last lines) reads
      in (concat (map processLine (butlast lines)) @ fst rest, snd rest))"

definition transformZenGPTResponseToDataStream :: "readResult list \<Rightarrow> jsstring list \<times> streamState" where
  "transformZenGPTResponseToDataStream zenGPTStream = readLoop [] zenGPTStream"

section \<open>parseSSELine, transformSSEEvent and transformStreamToSSE\<close>

text \<open>The interface \<^verbatim>\<open>ZenGPTStreamEvent\<close> of \<^verbatim>\<open>zengpt-types.ts\<close>: four optional
  fields. \<^verbatim>\<open>retry\<close> holds what \<^verbatim>\<open>Number.parseInt\<close> returned, \<open>None\<close> for NaN.\<close>

record ZenGPTStreamEvent =
  event_field :: "jsstring option"
  data_field :: "jsstring option"
  id_field :: "jsstring option"
  retry_field :: "int option option"

definition noEvent :: ZenGPTStreamEvent where
  "noEvent = \<lparr>event_field = None, data_field = None, id_field = None, retry_field = None\<rparr>"

text \<open>\<^verbatim>\<open>Number.parseInt(s, 10)\<close>: white space, a sign, then the longest run of digits.\<close>

definition parseInt10 :: "jsstring \<Rightarrow> int option" where
  "parseInt10 s =
     (let r = dropWhile isWhiteSpace s;
          neg = nextIs 45 r;
          r' = (if nextIs 45 r \<or> nextIs 43 r then tl r else r);
          ds = takeWhile isDigit r'
      in if ds = [] then None
         else Some (if neg then - int (digit_value ds 0) else int (digit_value ds 0)))"

definition parseSSELine :: "jsstring \<Rightarrow> ZenGPTStreamEvent option" where
  "parseSSELine line =
     (let trimmed = trim line
      in if startsWith trimmed (js ''data: '') then
           (let data = slice 6 trimmed
            in if data = js ''[DONE]''
               then Some (noEvent\<lparr>event_field := Some (js ''done''), data_field := Some (js ''[DONE]'')\<rparr>)
               else (case JSON_parse data of
                       Some parsed \<Rightarrow>
                         Some (noEvent\<lparr>event_field := Some (js ''data''),
                                        data_field := Some (JSON_stringify parsed)\<rparr>)
                     | None \<Rightarrow>
                         Some (noEvent\<lparr>event_field := Some (js ''data''), data_field := Some data\<rparr>)))
         else if startsWith trimmed (js ''event: '') then
           Some (noEvent\<lparr>event_field := Some (slice 7 trimmed)\<rparr>)
         else if startsWith trimmed (js ''id: '') then
           Some (noEvent\<lparr>id_field := Some (slice 4 trimmed)\<rparr>)
         else if startsWith trimmed (js ''retry: '') then
           Some (noEvent\<lparr>retry_field := Some (parseInt10 (slice 7 trimmed))\<rparr>)
         else None)"

text \<open>\<^verbatim>\<open>`msg-${Date.now()}`\<close>, the clock reading being a parameter.\<close>

definition msgId :: "nat \<Rightarrow> json" where
  "msgId now = JStr (js ''msg-'' @ decimal now)"

definition textPart :: "json \<Rightarrow> json" where
  "textPart text = JObj [(js ''type'', JStr (js ''text'')), (js ''text'', text)]"

definition orDefault :: "json option \<Rightarrow> json \<Rightarrow> json" where
  "orDefault a d = (case a of None \<Rightarrow> d | Some v \<Rightarrow> if truthy (Some v) then v else d)"

text \<open>The \<^verbatim>\<open>try\<close> block of \<^verbatim>\<open>transformSSEEvent\<close>, lines 351 to 368.\<close>

definition transformData :: "nat \<Rightarrow> jsstring \<Rightarrow> exn + jsstring" where
  "transformData now d =
     (case JSON_parse d of
        None \<Rightarrow> Inl SyntaxError
      | Some data \<Rightarrow>
          if data = JNull then Inl TypeError
          else Inr (js ''data: '' @
                    JSON_stringify
                      (JObj ([(js ''id'', orDefault (member data (js ''id'')) (msgId now)),
                              (js ''role'', JStr (js ''assistant'')),
                              (js ''parts'',
                               orDefault (member data (js ''parts''))
                                 (JArr [textPart
                                    (orDefault (or_else (member data (js ''response''))
                                                  (member data (js ''text'')))
                                       (JStr []))]))] @
                             (case member data (js ''metadata'') of
                                None \<Rightarrow> []
                              | Some m \<Rightarrow> if truthy (Some m) then [(js ''metadata'', m)] else []))) @
                    js ''\<newline>\<newline>''))"

definition transformSSEEvent :: "nat \<Rightarrow> ZenGPTStreamEvent \<Rightarrow> jsstring option" where
  "transformSSEEvent now ev =
     (if event_field ev = Some (js ''done'') \<or> data_field ev = Some (js ''[DONE]'')
      then Some DONE_FRAME
      else if event_field ev = Some (js ''data'') \<and> data_field ev \<noteq> None \<and> data_field ev \<noteq> Some []
      then (case data_field ev of
              None \<Rightarrow> None
            | Some d \<Rightarrow>
                (case transformData now d of
                   Inr frame \<Rightarrow> Some frame
                 | Inl e \<Rightarrow>
                     Some (js ''data: '' @
                           JSON_stringify
                             (JObj [(js ''id'', msgId now),
                                    (js ''role'', JStr (js ''assistant'')),
                                    (js ''parts'', JArr [textPart (JStr d)])]) @
                           js ''\<newline>\<newline>'')))
      else None)"

text \<open>The inner \<^verbatim>\<open>try\<close> of the loop, lines 271 to 281; \<^verbatim>\<open>parseSSELine\<close> and
  \<^verbatim>\<open>transformSSEEvent\<close> raise nothing.\<close>

definition sseEvent :: "nat \<Rightarrow> jsstring \<Rightarrow> jsstring list" where
  "sseEvent now line =
     (case parseSSELine line of
        None \<Rightarrow> []
      | Some ev \<Rightarrow>
          (case transformSSEEvent now ev of
             None \<Rightarrow> []
           | Some transformedEvent \<Rightarrow> [transformedEvent]))"

text \<open>The lines of one chunk. \<open>clock k\<close> is what \<^verbatim>\<open>Date.now()\<close> reads while the
  \<open>k\<close>-th non-blank line of the run is handled.\<close>

fun sseLines :: "(nat \<Rightarrow> nat) \<Rightarrow> nat \<Rightarrow> jsstring list \<Rightarrow> jsstring list \<times> nat" where
  "sseLines clock k [] = ([], k)"
| "sseLines clock k (line # lines) =
     (if trim line = [] then sseLines clock k lines
      else (let rest = sseLines clock (Suc k) lines
            in (sseEvent (clock k) line @ fst rest, snd rest)))"

fun sseLoop :: "(nat \<Rightarrow> nat) \<Rightarrow> nat \<Rightarrow> jsstring \<Rightarrow> readResult list \<Rightarrow> jsstring list \<times> streamState" where
  "sseLoop clock k buffer [] =
     ((if trim buffer \<noteq> [] then sseEvent (clock k) buffer else []), Closed)"
| "sseLoop clock k buffer (Rejected # reads) = ([], Errored)"
| "sseLoop clock k buffer (Value v # reads) =
     (let lines = split 10 (buffer @ v);
          done = sseLines clock k (butlast lines);
          rest = sseLoop clock (snd done) (last lines) reads
      in (fst done @ fst rest, snd rest))"

text \<open>\<^verbatim>\<open>stream.body\<close> is null or a stream.\<close>

definition transformStreamToSSE :: "(nat \<Rightarrow> nat) \<Rightarrow> readResult list option \<Rightarrow> jsstring list \<times> streamState" where
  "transformStreamToSSE clock body =
     (case body of
        None \<Rightarrow> ([], Closed)
      | Some reads \<Rightarrow> sseLoop clock 0 [] reads)"

text \<open>The fixture \<^verbatim>\<open>mockZenGPTResponse\<close> of \<^verbatim>\<open>scripts/test-streaming-transform.ts\<close>.\<close>

definition mockZenGPTResponse :: jsstring where
  \<open>mockZenGPTResponse = js ''data: {"content":{"parts":[{"text":"Hello"}],"role":"model"},"partial":true,"invocationId":"test-123","author":"ZenGPTCentralAgent","actions":{"stateDelta":{},"artifactDelta":{},"requestedAuthConfigs":{}},"id":"chunk1","timestamp":1751255536.452697}\<newline>\<newline>data: {"content":{"parts":[{"text":"! I'm ZenGPT"}],"role":"model"},"partial":true,"invocationId":"test-123","author":"ZenGPTCentralAgent","actions":{"stateDelta":{},"artifactDelta":{},"requestedAuthConfigs":{}},"id":"chunk2","timestamp":1751255536.452697}\<newline>\<newline>data: {"content":{"parts":[{"text":", your AI assistant."}],"role":"model"},"partial":true,"invocationId":"test-123","author":"ZenGPTCentralAgent","actions":{"stateDelta":{},"artifactDelta":{},"requestedAuthConfigs":{}},"id":"chunk3","timestamp":1751255536.452697}\<newline>\<newline>data: {"content":{"parts":[{"text":"Hello! I'm ZenGPT, your AI assistant."}],"role":"model"},"partial":false,"invocationId":"test-123","author":"ZenGPTCentralAgent","actions":{"stateDelta":{},"artifactDelta":{},"requestedAuthConfigs":{}},"id":"final","timestamp":1751255536.452697}\<newline>\<newline>''\<close>

text \<open>Observers on the output: which frames are text deltas.\<close>

definition isTextDeltaFrame :: "jsstring \<Rightarrow> bool" where
  \<open>isTextDeltaFrame f = startsWith f (js ''data: {"type":"text-delta","textDelta":'')\<close>

definition textDeltaFrames :: "jsstring list \<Rightarrow> jsstring list" where
  "textDeltaFrames fs = filter isTextDeltaFrame fs"

text \<open>The four events of the fixture, one per line of it.\<close>

definition mockLine1 :: jsstring where
  \<open>mockLine1 = js ''data: {"content":{"parts":[{"text":"Hello"}],"role":"model"},"partial":true,"invocationId":"test-123","author":"ZenGPTCentralAgent","actions":{"stateDelta":{},"artifactDelta":{},"requestedAuthConfigs":{}},"id":"chunk1","timestamp":1751255536.452697}''\<close>

definition mockLine2 :: jsstring where
  \<open>mockLine2 = js ''data: {"content":{"parts":[{"text":"! I'm ZenGPT"}],"role":"model"},"partial":true,"invocationId":"test-123","author":"ZenGPTCentralAgent","actions":{"stateDelta":{},"artifactDelta":{},"requestedAuthConfigs":{}},"id":"chunk2","timestamp":1751255536.452697}''\<close>

definition mockLine3 :: jsstring where
  \<open>mockLine3 = js ''data: {"content":{"parts":[{"text":", your AI assistant."}],"role":"model"},"partial":true,"invocationId":"test-123","author":"ZenGPTCentralAgent","actions":{"stateDelta":{},"artifactDelta":{},"requestedAuthConfigs":{}},"id":"chunk3","timestamp":1751255536.452697}''\<close>

definition mockLine4 :: jsstring where
  \<open>mockLine4 = js ''data: {"content":{"parts":[{"text":"Hello! I'm ZenGPT, your AI assistant."}],"role":"model"},"partial":false,"invocationId":"test-123","author":"ZenGPTCentralAgent","actions":{"stateDelta":{},"artifactDelta":{},"requestedAuthConfigs":{}},"id":"final","timestamp":1751255536.452697}''\<close>

section \<open>Line splitting across chunks\<close>

lemma split_not_Nil: "split sep s \<noteq> []"
  by (induction s) (auto split: list.splits)

lemma split_no_sep: "sep \<notin> set b \<Longrightarrow> split sep b = [b]"
  by (induction b) (auto split: list.splits)

lemma last_split_no_sep: "sep \<notin> set (last (split sep s))"
proof (induction s)
  case Nil
  then show ?case by simp
next
  case (Cons c cs)
  show ?case
  proof (cases "c = sep")
    case True
    then show ?thesis using Cons split_not_Nil [of sep cs] by simp
  next
    case False
    obtain l ls where sp: "split sep cs = l # ls"
      using split_not_Nil [of sep cs] by (cases "split sep cs") auto
    show ?thesis using False Cons sp by (cases ls) auto
  qed
qed

text \<open>Splitting a text equals splitting its first part, then going on from the
  unfinished last piece: what the buffer of the read loop relies on.\<close>

lemma split_append:
  "split sep (x @ v) = butlast (split sep x) @ split sep (last (split sep x) @ v)"
proof (induction x)
  case Nil
  then show ?case by simp
next
  case (Cons c cs)
  show ?case
  proof (cases "c = sep")
    case True
    then show ?thesis using Cons split_not_Nil [of sep cs] by simp
  next
    case False
    obtain l ls where sp: "split sep cs = l # ls"
      using split_not_Nil [of sep cs] by (cases "split sep cs") auto
    show ?thesis
    proof (cases ls)
      case Nil
      then show ?thesis using False Cons sp by simp
    next
      case (Cons m ms)
      then show ?thesis using False Cons.IH sp by simp
    qed
  qed
qed

lemma split_line: "sep \<notin> set l \<Longrightarrow> split sep (l @ sep # r) = l # split sep r"
  by (induction l) auto

lemma last_split_terminated: "last (split sep (p @ [sep])) = []"
proof -
  have "split sep (last (split sep p) @ [sep]) = [last (split sep p), []]"
    using split_line [OF last_split_no_sep, of sep p "[]"] by simp
  then show ?thesis
    using split_append [of sep p "[sep]"] by simp
qed

lemma last_split_boundary:
  assumes "pre = [] \<or> last pre = sep"
  shows "last (split sep pre) = []"
proof (cases "pre = []")
  case True
  then show ?thesis by simp
next
  case False
  with assms have "pre = butlast pre @ [sep]"
    by (metis append_butlast_last_id)
  then show ?thesis
    using last_split_terminated [of sep "butlast pre"] by simp
qed

lemma split_after_boundary:
  assumes "pre = [] \<or> last pre = sep"
  shows "split sep (pre @ r) = butlast (split sep pre) @ split sep r"
  using split_append [of sep pre r] last_split_boundary [OF assms] by simp

text \<open>The output of a run without transport fault depends on the concatenated text
  only: the complete lines go through the loop body, the rest through the final
  branch.\<close>

lemma readLoop_values:
  "10 \<notin> set b \<Longrightarrow>
   readLoop b (map Value vs) =
     (concat (map processLine (butlast (split 10 (b @ concat vs)))) @
      processRemaining (last (split 10 (b @ concat vs))), Closed)"
proof (induction vs arbitrary: b)
  case Nil
  then show ?case by (simp add: split_no_sep)
next
  case (Cons v vs)
  have nb: "10 \<notin> set (last (split 10 (b @ v)))" by (rule last_split_no_sep)
  have sp: "split 10 (b @ v @ concat vs) =
            butlast (split 10 (b @ v)) @ split 10 (last (split 10 (b @ v)) @ concat vs)"
    using split_append [of 10 "b @ v" "concat vs"] by simp
  show ?case
    using Cons.IH [OF nb] sp
    by (simp add: Let_def butlast_append split_not_Nil)
qed

lemma transform_text:
  "transformZenGPTResponseToDataStream (map Value vs) =
     (concat (map processLine (butlast (split 10 (concat vs)))) @
      processRemaining (last (split 10 (concat vs))), Closed)"
  using readLoop_values [of "[]" vs] by (simp add: transformZenGPTResponseToDataStream_def)

section \<open>Evaluating the model\<close>

text \<open>The defining equations that a concrete run unfolds.\<close>

lemmas js_eval =
  js_def isWhiteSpace_def trim_def startsWith_def slice_def hexDigit_def unicodeEscape_def
  isLeadSurrogate_def isTrailSurrogate_def quoteUnit_def quoteJSONString_def
  isJSONSpace_def skipWS_def nextIs_def hexValue_def hex4_def simpleEscape_def consUnit_def
  formatNumber_def numberToString_def parseExponent_def parseFraction_def parseNumber_def
  setProperty_def makeObject_def JSON_parse_def DONE_FRAME_def textDeltaFrame_def
  nestedText_def extractTextDelta_def enqueueTextDelta_def tryPayload_def catchWarn_def
  processLine_def processRemaining_def dot_def opt_dot_def or_else_def array_index_def
  isDigit_def Let_def

lemmas stream_eval = transformZenGPTResponseToDataStream_def js_eval

section \<open>One line\<close>

lemma parse_DONE: "JSON_parse (js ''[DONE]'') = None"
  by (simp add: js_eval)

lemma parsed_not_DONE: "JSON_parse data = Some parsed \<Longrightarrow> data \<noteq> js ''[DONE]''"
  using parse_DONE by auto

lemma trim_data_line: "trim (js ''data: '' @ data) \<noteq> []"
  by (simp add: trim_def js_def isWhiteSpace_def dropWhile_append3)

lemma startsWith_data_line: "startsWith (js ''data: '' @ data) (js ''data: '')"
  by (simp add: startsWith_def js_def)

lemma slice_data_line: "slice 6 (js ''data: '' @ data) = data"
  by (simp add: slice_def js_def)

lemma processLine_data:
  "data \<noteq> js ''[DONE]'' \<Longrightarrow> processLine (js ''data: '' @ data) = fst (tryPayload data)"
  by (simp add: processLine_def trim_data_line startsWith_data_line slice_data_line catchWarn_def)

lemma processRemaining_data:
  "data \<noteq> js ''[DONE]'' \<Longrightarrow> processRemaining (js ''data: '' @ data) = fst (tryPayload data)"
  by (simp add: processRemaining_def trim_data_line startsWith_data_line slice_data_line
      catchWarn_def)

lemma processLine_blank: "processLine [] = []"
  by (simp add: processLine_def trim_def)

lemma processRemaining_blank: "processRemaining [] = []"
  by (simp add: processRemaining_def trim_def)

text \<open>The final branch treats the remaining buffer as the loop treats a line, the bare
  sentinel line apart.\<close>

lemma residual_as_line:
  "buffer \<noteq> js ''data: [DONE]'' \<Longrightarrow> processRemaining buffer = processLine buffer"
proof (cases "startsWith buffer (js ''data: '')")
  case True
  assume ne: "buffer \<noteq> js ''data: [DONE]''"
  have len: "length (js ''data: '') = 6" by (simp add: js_def)
  from True have "take 6 buffer = js ''data: ''"
    unfolding startsWith_def len .
  then have b: "buffer = js ''data: '' @ slice 6 buffer"
    by (metis append_take_drop_id slice_def)
  have "slice 6 buffer \<noteq> js ''[DONE]''"
  proof
    assume "slice 6 buffer = js ''[DONE]''"
    with b have "buffer = js ''data: '' @ js ''[DONE]''" by simp
    with ne show False by (simp add: js_def)
  qed
  then show ?thesis
    using b processLine_data processRemaining_data by metis
next
  case False
  then show ?thesis by (simp add: processRemaining_def processLine_def)
qed

lemma tryPayload_object:
  "JSON_parse data = Some parsed \<Longrightarrow> parsed \<noteq> JNull \<Longrightarrow>
   tryPayload data =
     (enqueueTextDelta
        (if truthy (nestedText (member parsed (js ''content'')))
         then nestedText (member parsed (js ''content''))
         else if truthy (member parsed (js ''response'')) then member parsed (js ''response'')
         else if truthy (member parsed (js ''text'')) then member parsed (js ''text'')
         else Some (JStr [])) @
      (if member parsed (js ''partial'') = Some (JBool False) then [DONE_FRAME] else []),
      None)"
  by (simp add: tryPayload_def extractTextDelta_def dot_def or_else_def)

lemma tryPayload_null: "JSON_parse data = Some JNull \<Longrightarrow> tryPayload data = ([], Some TypeError)"
  by (simp add: tryPayload_def extractTextDelta_def dot_def)

lemma tryPayload_invalid: "JSON_parse data = None \<Longrightarrow> tryPayload data = ([], Some SyntaxError)"
  by (simp add: tryPayload_def)

lemma DONE_not_textDelta: "\<not> isTextDeltaFrame DONE_FRAME"
  by (simp add: isTextDeltaFrame_def DONE_FRAME_def startsWith_def js_def)

lemma textDeltaFrame_not_DONE: "textDeltaFrame v \<noteq> DONE_FRAME"
  by (simp add: textDeltaFrame_def DONE_FRAME_def js_def)

text \<open>\<^verbatim>\<open>parseSSELine\<close> classifies the stripped line.\<close>

lemma parseSSELine_stripped_DONE:
  "trim line = js ''data: [DONE]'' \<Longrightarrow>
   parseSSELine line =
     Some (noEvent\<lparr>event_field := Some (js ''done''), data_field := Some (js ''[DONE]'')\<rparr>)"
  by (simp add: parseSSELine_def Let_def) (simp add: startsWith_def slice_def js_def)

lemma parseSSELine_blank: "trim line = [] \<Longrightarrow> parseSSELine line = None"
  by (simp add: parseSSELine_def Let_def startsWith_def js_def)

section \<open>The shape of the frames\<close>






section \<open>The fixture, line by line\<close>

lemma mock_text:
  "mockZenGPTResponse =
     mockLine1 @ 10 # 10 # mockLine2 @ 10 # 10 # mockLine3 @ 10 # 10 # mockLine4 @ [10, 10]"
  by (simp add: mockZenGPTResponse_def mockLine1_def mockLine2_def mockLine3_def mockLine4_def
      js_def)

lemma mock_no_newline:
  "10 \<notin> set mockLine1" "10 \<notin> set mockLine2" "10 \<notin> set mockLine3" "10 \<notin> set mockLine4"
  by (simp_all add: mockLine1_def mockLine2_def mockLine3_def mockLine4_def js_def)

lemma mock_split:
  "split 10 mockZenGPTResponse =
     [mockLine1, [], mockLine2, [], mockLine3, [], mockLine4, [], []]"
  by (simp add: mock_text split_line mock_no_newline)

lemma mock1:
  \<open>processLine mockLine1 = [js ''data: {"type":"text-delta","textDelta":"Hello"}\<newline>\<newline>'']\<close>
  by (simp add: mockLine1_def js_eval)

lemma mock2:
  \<open>processLine mockLine2 =
     [js ''data: {"type":"text-delta","textDelta":"! I'm ZenGPT"}\<newline>\<newline>'']\<close>
  by (simp add: mockLine2_def js_eval)

lemma mock3:
  \<open>processLine mockLine3 =
     [js ''data: {"type":"text-delta","textDelta":", your AI assistant."}\<newline>\<newline>'']\<close>
  by (simp add: mockLine3_def js_eval)

lemma mock4:
  \<open>processLine mockLine4 =
     [js ''data: {"type":"text-delta","textDelta":"Hello! I'm ZenGPT, your AI assistant."}\<newline>\<newline>'',
      js ''data: [DONE]\<newline>\<newline>'']\<close>
  by (simp add: mockLine4_def js_eval)

section \<open>The claims\<close>

text \<open>
  C1. Chunk-boundary invariance: however the upstream text is cut into successive
  chunks (empty chunks and one-unit chunks included), the transform emits the same
  sequence of text-delta frames as for the same text delivered as one chunk; indeed the
  whole output, completion frames and final state included, is the same.
\<close>

theorem chunk_boundary_invariance:
  "textDeltaFrames (fst (transformZenGPTResponseToDataStream (map Value chunks))) =
     textDeltaFrames (fst (transformZenGPTResponseToDataStream [Value (concat chunks)]))
   \<and> transformZenGPTResponseToDataStream (map Value chunks) =
       transformZenGPTResponseToDataStream [Value (concat chunks)]"
proof -
  have "transformZenGPTResponseToDataStream (map Value chunks) =
        transformZenGPTResponseToDataStream (map Value [concat chunks])"
    unfolding transform_text by simp
  then show ?thesis by simp
qed

text \<open>
  C2. On the fixture of four events the transform enqueues, in input order, the
  text-delta frames of the three fragments, a fourth text-delta frame repeating the
  whole sentence of the final event, then one completion frame, and closes.
\<close>

theorem mock_fixture_end_to_end:
  \<open>transformZenGPTResponseToDataStream [Value mockZenGPTResponse] =
     ([js ''data: {"type":"text-delta","textDelta":"Hello"}\<newline>\<newline>'',
       js ''data: {"type":"text-delta","textDelta":"! I'm ZenGPT"}\<newline>\<newline>'',
       js ''data: {"type":"text-delta","textDelta":", your AI assistant."}\<newline>\<newline>'',
       js ''data: {"type":"text-delta","textDelta":"Hello! I'm ZenGPT, your AI assistant."}\<newline>\<newline>'',
       js ''data: [DONE]\<newline>\<newline>''], Closed)\<close>
  using transform_text [of "[mockZenGPTResponse]"]
  by (simp add: mock_split mock1 mock2 mock3 mock4 processLine_blank processRemaining_blank)






text \<open>
  C5. The remaining buffer \<^verbatim>\<open>data: [DONE]\<close> of an upstream that ends without a newline
  yields no frame, where the same line ended by a newline yields the completion frame:
  the final branch tests \<^verbatim>\<open>data !== '[DONE]'\<close> and enqueues nothing otherwise. (For
  every other remaining buffer the final branch does what the loop does,
  \<open>residual_as_line\<close>.)
\<close>

theorem residual_done_dropped:
  "transformZenGPTResponseToDataStream [Value (js ''data: [DONE]'')] = ([], Closed)
   \<and> transformZenGPTResponseToDataStream [Value (js ''data: [DONE]\<newline>'')] =
       ([DONE_FRAME], Closed)"
  by (simp add: stream_eval)

text \<open>
  C6, as amended. A \<^verbatim>\<open>data:\<close> event whose parsed payload has no truthy text in
  \<^verbatim>\<open>content.parts[0].text\<close>, \<^verbatim>\<open>response\<close> and \<^verbatim>\<open>text\<close> yields no text-delta
  frame; it yields the completion frame, and only that, exactly when its
  \<^verbatim>\<open>partial\<close> is \<^verbatim>\<open>false\<close>, and nothing at all otherwise.
\<close>

theorem empty_text_no_delta:
  assumes "JSON_parse data = Some parsed"
    and "\<not> truthy (nestedText (member parsed (js ''content'')))"
    and "\<not> truthy (member parsed (js ''response''))"
    and "\<not> truthy (member parsed (js ''text''))"
  shows "processLine (js ''data: '' @ data) =
           (if member parsed (js ''partial'') = Some (JBool False) then [DONE_FRAME] else [])
       \<and> textDeltaFrames (processLine (js ''data: '' @ data)) = []"
proof (cases "parsed = JNull")
  case True
  then show ?thesis
    using assms(1) processLine_data [OF parsed_not_DONE [OF assms(1)]] tryPayload_null
    by (simp add: textDeltaFrames_def)
next
  case False
  then show ?thesis
    using assms processLine_data [OF parsed_not_DONE [OF assms(1)]]
      tryPayload_object [OF assms(1) False]
    by (simp add: enqueueTextDelta_def textDeltaFrames_def DONE_not_textDelta)
qed

text \<open>An instance of C6 as amended: a partial event with the empty text.\<close>

theorem empty_text_no_delta_witness:
  \<open>JSON_parse (js ''{"content":{"parts":[{"text":""}]},"partial":true}'') =
     Some (JObj [(js ''content'', JObj [(js ''parts'', JArr [JObj [(js ''text'', JStr [])]])]),
                 (js ''partial'', JBool True)])
   \<and> processLine (js ''data: '' @ js ''{"content":{"parts":[{"text":""}]},"partial":true}'') = []\<close>
proof -
  let ?d = \<open>js ''{"content":{"parts":[{"text":""}]},"partial":true}''\<close>
  let ?p = "JObj [(js ''content'', JObj [(js ''parts'', JArr [JObj [(js ''text'', JStr [])]])]),
                 (js ''partial'', JBool True)]"
  have h1: "JSON_parse ?d = Some ?p" by (simp add: js_eval)
  have h2: "\<not> truthy (nestedText (member ?p (js ''content'')))" by (simp add: js_eval)
  have h3: "\<not> truthy (member ?p (js ''response''))" by (simp add: js_eval)
  have h4: "\<not> truthy (member ?p (js ''text''))" by (simp add: js_eval)
  have "member ?p (js ''partial'') \<noteq> Some (JBool False)" by (simp add: js_eval)
  then show ?thesis using h1 empty_text_no_delta [OF h1 h2 h3 h4] by simp
qed

text \<open>C6 as stated fails: the final event with the empty text yields a frame, the
  completion frame.\<close>

theorem empty_text_final_counterexample:
  \<open>transformZenGPTResponseToDataStream
     [Value (js ''data: {"content":{"parts":[{"text":""}]},"partial":false}\<newline>'')] =
   ([DONE_FRAME], Closed)\<close>
  by (simp add: stream_eval)

text \<open>
  C7. The transform tests the prefix \<^verbatim>\<open>data: \<close> on the line as it is, stripping it only
  to see whether it is blank: the sentinel line followed by a carriage return, or
  preceded by spaces, yields no frame, where \<^verbatim>\<open>parseSSELine\<close> strips first and returns
  the done event for both.
\<close>

theorem untrimmed_prefix_test:
  "transformZenGPTResponseToDataStream [Value (js ''data: [DONE]'' @ [13, 10])] = ([], Closed)
   \<and> transformZenGPTResponseToDataStream [Value (js ''  data: [DONE]\<newline>'')] = ([], Closed)
   \<and> parseSSELine (js ''data: [DONE]'' @ [13]) =
       Some (noEvent\<lparr>event_field := Some (js ''done''), data_field := Some (js ''[DONE]'')\<rparr>)
   \<and> parseSSELine (js ''  data: [DONE]'') =
       Some (noEvent\<lparr>event_field := Some (js ''done''), data_field := Some (js ''[DONE]'')\<rparr>)"
  by (simp add: stream_eval parseSSELine_def)



text \<open>
  C9. A complete line \<^verbatim>\<open>data: \<close> whose payload is neither valid JSON nor the sentinel
  is skipped without a frame; the run goes on as if the line were not there, so the
  lines before and after it yield their frames, and the stream ends closed, not
  errored. The same holds when the line is the remaining buffer. \<^verbatim>\<open>parseSSELine\<close>
  returns such a line (already stripped) as a data event carrying the raw payload.
\<close>

theorem malformed_line_skipped:
  assumes bad: "JSON_parse (slice 6 line) = None"
    and pre: "startsWith line (js ''data: '')"
    and nd: "slice 6 line \<noteq> js ''[DONE]''"
    and nl: "10 \<notin> set line"
    and bound: "pre = [] \<or> last pre = 10"
  shows "processLine line = []
       \<and> transformZenGPTResponseToDataStream [Value (pre @ line @ [10] @ post)] =
           transformZenGPTResponseToDataStream [Value (pre @ post)]
       \<and> snd (transformZenGPTResponseToDataStream [Value (pre @ line @ [10] @ post)]) = Closed
       \<and> transformZenGPTResponseToDataStream [Value (pre @ line)] =
           transformZenGPTResponseToDataStream [Value pre]
       \<and> (trim line = line \<longrightarrow>
            parseSSELine line =
              Some (noEvent\<lparr>event_field := Some (js ''data''), data_field := Some (slice 6 line)\<rparr>))"
proof -
  have pl: "processLine line = []"
    using bad pre nd by (simp add: processLine_def catchWarn_def tryPayload_invalid)
  have pr: "processRemaining line = []"
    using bad pre nd by (simp add: processRemaining_def catchWarn_def tryPayload_invalid)
  have s1: "split 10 (pre @ line @ [10] @ post) = butlast (split 10 pre) @ line # split 10 post"
    using split_after_boundary [OF bound, of "line @ [10] @ post"] split_line [OF nl, of post]
    by simp
  have s2: "split 10 (pre @ post) = butlast (split 10 pre) @ split 10 post"
    using split_after_boundary [OF bound, of post] .
  have s3: "split 10 (pre @ line) = butlast (split 10 pre) @ [line]"
    using split_after_boundary [OF bound, of line] split_no_sep [OF nl] by simp
  have t1: "transformZenGPTResponseToDataStream [Value (pre @ line @ [10] @ post)] =
     (concat (map processLine (butlast (split 10 pre))) @
      concat (map processLine (butlast (split 10 post))) @
      processRemaining (last (split 10 post)), Closed)"
    using transform_text [of "[pre @ line @ [10] @ post]"] s1 pl
    by (simp add: butlast_append split_not_Nil)
  have t2: "transformZenGPTResponseToDataStream [Value (pre @ post)] =
     (concat (map processLine (butlast (split 10 pre))) @
      concat (map processLine (butlast (split 10 post))) @
      processRemaining (last (split 10 post)), Closed)"
    using transform_text [of "[pre @ post]"] s2
    by (simp add: butlast_append split_not_Nil)
  have t3: "transformZenGPTResponseToDataStream [Value (pre @ line)] =
     (concat (map processLine (butlast (split 10 pre))), Closed)"
    using transform_text [of "[pre @ line]"] s3 pr by simp
  have t4: "transformZenGPTResponseToDataStream [Value pre] =
     (concat (map processLine (butlast (split 10 pre))), Closed)"
    using transform_text [of "[pre]"] last_split_boundary [OF bound]
    by (simp add: processRemaining_blank)
  have p: "trim line = line \<longrightarrow>
            parseSSELine line =
              Some (noEvent\<lparr>event_field := Some (js ''data''), data_field := Some (slice 6 line)\<rparr>)"
    using bad pre nd by (simp add: parseSSELine_def Let_def)
  show ?thesis using pl t1 t2 t3 t4 p by simp
qed

text \<open>An instance of C9: a line that is not JSON between two events.\<close>

theorem malformed_line_skipped_witness:
  \<open>JSON_parse (slice 6 (js ''data: not json'')) = None
   \<and> startsWith (js ''data: not json'') (js ''data: '')
   \<and> processLine (js ''data: not json'') = []
   \<and> transformZenGPTResponseToDataStream
        [Value (js ''data: {"text":"a"}\<newline>'' @ js ''data: not json'' @ [10] @ js ''data: {"text":"b"}\<newline>'')] =
      transformZenGPTResponseToDataStream
        [Value (js ''data: {"text":"a"}\<newline>'' @ js ''data: {"text":"b"}\<newline>'')]
   \<and> snd (transformZenGPTResponseToDataStream
        [Value (js ''data: {"text":"a"}\<newline>'' @ js ''data: not json'' @ [10] @ js ''data: {"text":"b"}\<newline>'')]) = Closed
   \<and> parseSSELine (js ''data: not json'') =
        Some (noEvent\<lparr>event_field := Some (js ''data''),
                       data_field := Some (slice 6 (js ''data: not json''))\<rparr>)\<close>
proof -
  let ?line = "js ''data: not json''"
  let ?pre = \<open>js ''data: {"text":"a"}\<newline>''\<close>
  have h1: "JSON_parse (slice 6 ?line) = None" by (simp add: js_eval)
  have h2: "startsWith ?line (js ''data: '')" by (simp add: js_eval)
  have h3: "slice 6 ?line \<noteq> js ''[DONE]''" by (simp add: js_eval)
  have h4: "10 \<notin> set ?line" by (simp add: js_eval)
  have h5: "?pre = [] \<or> last ?pre = 10" by (simp add: js_eval)
  have h6: "trim ?line = ?line" by (simp add: js_eval)
  show ?thesis
    using h1 h2 h6 malformed_line_skipped [OF h1 h2 h3 h4 h5, of \<open>js ''data: {"text":"b"}\<newline>''\<close>]
    by blast
qed

text \<open>
  C10. When the upstream response has a null body, \<^verbatim>\<open>transformStreamToSSE\<close> closes the
  returned stream at once: no frame is enqueued and the stream is not errored.
\<close>

theorem null_body_closes_immediately: "transformStreamToSSE clock None = ([], Closed)"
  by (simp add: transformStreamToSSE_def)

end
